theory Spec2Isabelle
  imports Complex_Main
begin

section \<open>Data model of \<open>vox_nav_control/common.hpp\<close>\<close>

text \<open>
  The header works on ROS messages and on \<open>double\<close> values. Where the header
  computes with a \<open>double\<close> (positions, distances, angles), it is modelled by a real
  number: rounding is idealised away, and the places where the C++ leaves the real
  numbers are written out as errors (a quotient by a zero spacing is an infinity or a
  NaN, and converting such a value, or one outside the range of \<open>int\<close>, to \<open>int\<close>
  is undefined). Where the header only compares and copies a \<open>double\<close> (the
  velocities of \<open>regulateMaxSpeed\<close> and the velocity bounds), it is modelled by the
  type \<open>double\<close> below, with its infinities and its NaN. An \<open>int\<close> is a 32 bit
  signed integer, modelled by a HOL integer together with the range checks below;
  \<open>size_t\<close> is 64 bit and unsigned.
\<close>

text \<open>
  A \<open>double\<close> with its special values, and the comparisons \<open><\<close> and \<open><=\<close> of
  IEEE 754: every comparison with a NaN is false.
\<close>

datatype double = Finite real | PlusInfinity | MinusInfinity | NaN

fun double_less :: "double \<Rightarrow> double \<Rightarrow> bool" where
  "double_less (Finite a) (Finite b) = (a < b)"
| "double_less (Finite a) PlusInfinity = True"
| "double_less MinusInfinity (Finite b) = True"
| "double_less MinusInfinity PlusInfinity = True"
| "double_less a b = False"

fun double_le :: "double \<Rightarrow> double \<Rightarrow> bool" where
  "double_le (Finite a) (Finite b) = (a \<le> b)"
| "double_le (Finite a) PlusInfinity = True"
| "double_le MinusInfinity (Finite b) = True"
| "double_le MinusInfinity PlusInfinity = True"
| "double_le MinusInfinity MinusInfinity = True"
| "double_le PlusInfinity PlusInfinity = True"
| "double_le a b = False"

datatype error =
    UndefinedConversion   \<comment> \<open>a \<open>double\<close> that no \<open>int\<close> represents is converted to \<open>int\<close>\<close>
  | SignedOverflow        \<comment> \<open>an \<open>int\<close> addition leaves the range of \<open>int\<close>\<close>
  | IndexOutOfRange       \<comment> \<open>a vector is read or sliced outside its bounds\<close>
  | AllocationFailure     \<comment> \<open>a vector is asked to grow beyond any memory\<close>

text \<open>\<open>geometry_msgs::msg::Point\<close>.\<close>

record Point =
  pt_x :: real
  pt_y :: real
  pt_z :: real

text \<open>
  \<open>geometry_msgs::msg::PoseStamped\<close>. The header never looks into a quaternion
  itself: every orientation is read through \<open>getRPYfromMsgQuaternion\<close> only, so
  the orientation type is left open (\<open>'q\<close>) and the conversion is a parameter
  \<open>rpy\<close> of the functions that need it.
\<close>

record 'q PoseStamped =
  stamp :: nat
  frame_id :: string
  position :: Point
  orientation :: 'q

text \<open>\<open>struct States\<close>, with the default constructor's values.\<close>

record States =
  st_x :: real
  st_y :: real
  st_z :: real
  st_psi :: real
  st_v :: double

definition States0 :: States where
  "States0 = \<lparr>st_x = 0, st_y = 0, st_z = 0, st_psi = 0, st_v = Finite 0\<rparr>"

text \<open>\<open>struct Parameters\<close>.\<close>

record Parameters =
  N :: int
  DT :: real
  L_F :: real
  L_R :: real
  V_MIN :: double
  V_MAX :: double
  A_MIN :: real
  A_MAX :: real
  DF_MIN :: real
  DF_MAX :: real
  A_DOT_MIN :: real
  A_DOT_MAX :: real
  DF_DOT_MIN :: real
  DF_DOT_MAX :: real
  Q :: "real list"
  R :: "real list"
  debug_mode :: bool
  params_configured :: bool
  max_obstacles :: int
  robot_radius :: real
  obstacle_cost :: real
  full_ackerman :: bool

text \<open>The values the constructor \<open>Parameters()\<close> assigns.\<close>

definition Parameters0 :: Parameters where
  "Parameters0 =
     \<lparr>N = 10, DT = 1 / 10, L_F = 65 / 100, L_R = 65 / 100,
      V_MIN = Finite (- 10), V_MAX = Finite 10, A_MIN = - 1, A_MAX = 1,
      DF_MIN = - (1 / 2), DF_MAX = 1 / 2, A_DOT_MIN = - 1, A_DOT_MAX = 1,
      DF_DOT_MIN = - (1 / 2), DF_DOT_MAX = 1 / 2,
      Q = [100, 100, 10, 1 / 10], R = [10, 10],
      debug_mode = True, params_configured = False,
      max_obstacles = 1, robot_radius = 1 / 2, obstacle_cost = 1,
      full_ackerman = False\<rparr>"

text \<open>\<open>geometry_msgs::msg::Twist\<close>: two \<open>geometry_msgs::msg::Vector3\<close> of three doubles.\<close>

record Vector3 =
  v3_x :: double
  v3_y :: double
  v3_z :: double

record Twist =
  linear :: Vector3
  angular :: Vector3

section \<open>Machine arithmetic used by the header\<close>

definition INT_MIN :: int where
  "INT_MIN = - (2 ^ 31)"

definition INT_MAX :: int where
  "INT_MAX = 2 ^ 31 - 1"

text \<open>Conversion of a \<open>double\<close> to \<open>int\<close> truncates towards zero.\<close>

definition trunc_int :: "real \<Rightarrow> int" where
  "trunc_int r = (if 0 \<le> r then \<lfloor>r\<rfloor> else \<lceil>r\<rceil>)"

definition double_to_int :: "real \<Rightarrow> error + int" where
  "double_to_int r =
     (if INT_MIN \<le> trunc_int r \<and> trunc_int r \<le> INT_MAX then Inr (trunc_int r)
      else Inl UndefinedConversion)"

text \<open>
  \<open>int k = a / b\<close> on doubles: with \<open>b = 0\<close> the quotient is an infinity or a
  NaN, which no \<open>int\<close> represents.
\<close>

definition quotient_to_int :: "real \<Rightarrow> real \<Rightarrow> error + int" where
  "quotient_to_int a b = (if b = 0 then Inl UndefinedConversion else double_to_int (a / b))"

definition int_add :: "int \<Rightarrow> int \<Rightarrow> error + int" where
  "int_add a b =
     (if INT_MIN \<le> a + b \<and> a + b \<le> INT_MAX then Inr (a + b) else Inl SignedOverflow)"

text \<open>
  Comparing an \<open>int\<close> with a \<open>size_t\<close> converts the \<open>int\<close> to \<open>size_t\<close>
  (modulo \<open>2 ^ 64\<close>); \<open>size() - 1\<close> is computed in \<open>size_t\<close>, so it wraps for an
  empty vector; assigning a \<open>size_t\<close> to an \<open>int\<close> keeps the low 32 bits.
\<close>

definition size_t_of_int :: "int \<Rightarrow> nat" where
  "size_t_of_int i = nat (i mod 2 ^ 64)"

definition size_minus_one :: "nat \<Rightarrow> nat" where
  "size_minus_one n = nat ((int n - 1) mod 2 ^ 64)"

definition int_of_size_t :: "nat \<Rightarrow> int" where
  "int_of_size_t n =
     (if int n mod 2 ^ 32 < 2 ^ 31 then int n mod 2 ^ 32 else int n mod 2 ^ 32 - 2 ^ 32)"

text \<open>\<open>v[i]\<close> on a \<open>std::vector\<close> with an \<open>int\<close> index: defined inside the bounds only.\<close>

definition at_index :: "'a list \<Rightarrow> int \<Rightarrow> error + 'a" where
  "at_index v i = (if 0 \<le> i \<and> i < int (length v) then Inr (v ! nat i) else Inl IndexOutOfRange)"

section \<open>\<open>nearestStateIndex\<close>\<close>

text \<open>
  The loop of \<open>nearestStateIndex\<close>. Its state is the pair of the locals
  \<open>closest_state_index\<close> and \<open>closest_state_distance\<close>; both are declared
  \<open>int\<close> in the source, so the distance kept for the next comparison is the
  truncated one. \<open>pose_dist\<close> stands for \<open>vox_nav_utilities::getEuclidianDistBetweenPoses\<close>,
  which is not part of this header.
\<close>

fun nearest_scan ::
  "('p \<Rightarrow> 'p \<Rightarrow> real) \<Rightarrow> 'p \<Rightarrow> 'p list \<Rightarrow> int \<Rightarrow> int \<times> int \<Rightarrow> int \<times> int" where
  "nearest_scan pose_dist curr_robot_pose [] i (closest_state_index, closest_state_distance) =
     (closest_state_index, closest_state_distance)"
| "nearest_scan pose_dist curr_robot_pose (p # ps) i (closest_state_index, closest_state_distance) =
     (if pose_dist p curr_robot_pose < real_of_int closest_state_distance
      then nearest_scan pose_dist curr_robot_pose ps (i + 1) (i, trunc_int (pose_dist p curr_robot_pose))
      else nearest_scan pose_dist curr_robot_pose ps (i + 1)
             (closest_state_index, closest_state_distance))"

definition nearestStateIndex :: "('p \<Rightarrow> 'p \<Rightarrow> real) \<Rightarrow> 'p list \<Rightarrow> 'p \<Rightarrow> int" where
  "nearestStateIndex pose_dist reference_traj curr_robot_pose =
     fst (nearest_scan pose_dist curr_robot_pose reference_traj 0 (- 1, 10000))"

text \<open>
  Modelled from the spec: \<open>getEuclidianDistBetweenPoses\<close> lives in
  \<open>vox_nav_utilities\<close>; the specification calls it the Euclidean planar distance
  between two poses. It instantiates \<open>pose_dist\<close> in the concrete scenarios; the general
  theorems hold for every \<open>pose_dist\<close>.
\<close>

definition getEuclidianDistBetweenPoses :: "'q PoseStamped \<Rightarrow> 'q PoseStamped \<Rightarrow> real" where
  "getEuclidianDistBetweenPoses a b =
     sqrt ((pt_x (position a) - pt_x (position b))\<^sup>2 + (pt_y (position a) - pt_y (position b))\<^sup>2)"

text \<open>A pose at \<open>(px, py, 0)\<close> whose orientation is \<open>q\<close>.\<close>

definition pose_at :: "real \<Rightarrow> real \<Rightarrow> 'q \<Rightarrow> 'q PoseStamped" where
  "pose_at px py q =
     \<lparr>stamp = 0, frame_id = ''map'', position = \<lparr>pt_x = px, pt_y = py, pt_z = 0\<rparr>,
      orientation = q\<rparr>"

section \<open>\<open>regulateMaxSpeed\<close>\<close>

text \<open>
  The function updates \<open>computed_velocity.linear.x\<close> in place; the model returns the
  twist. Line 402 tests \<open>linear.x > V_MAX\<close>, that is \<open>V_MAX < linear.x\<close>, and line
  404 tests \<open>linear.x < V_MIN\<close>; both are comparisons of doubles.
\<close>

definition regulateMaxSpeed :: "Twist \<Rightarrow> Parameters \<Rightarrow> Twist" where
  "regulateMaxSpeed computed_velocity mpc_parameters =
     (if double_less (V_MAX mpc_parameters) (v3_x (linear computed_velocity))
      then computed_velocity\<lparr>linear := (linear computed_velocity)\<lparr>v3_x := V_MAX mpc_parameters\<rparr>\<rparr>
      else if double_less (v3_x (linear computed_velocity)) (V_MIN mpc_parameters)
      then computed_velocity\<lparr>linear := (linear computed_velocity)\<lparr>v3_x := V_MIN mpc_parameters\<rparr>\<rparr>
      else computed_velocity)"

section \<open>\<open>getLocalInterpolatedReferenceStates\<close>\<close>

text \<open>
  Lines 221-225: \<open>path_euclidian_length\<close> accumulates the distance of each pose to its
  predecessor. (The front-axle pose computed at lines 211-215 is never read again and
  is left out.)
\<close>

fun length_loop :: "('p \<Rightarrow> 'p \<Rightarrow> real) \<Rightarrow> real \<Rightarrow> 'p list \<Rightarrow> real" where
  "length_loop pose_dist acc (p # q # ps) = length_loop pose_dist (acc + pose_dist q p) (q # ps)"
| "length_loop pose_dist acc ps = acc"

definition path_euclidian_length :: "('p \<Rightarrow> 'p \<Rightarrow> real) \<Rightarrow> 'p list \<Rightarrow> real" where
  "path_euclidian_length pose_dist reference_traj = length_loop pose_dist 0 reference_traj"

text \<open>
  Line 227 divides by the number of poses. For an empty path the C++ quotient is a NaN;
  HOL's \<open>0 / 0\<close> is \<open>0\<close>, and both make the conversion of line 228 undefined.
\<close>

definition interpolation_step_size :: "('p \<Rightarrow> 'p \<Rightarrow> real) \<Rightarrow> 'p list \<Rightarrow> real" where
  "interpolation_step_size pose_dist reference_traj =
     path_euclidian_length pose_dist reference_traj / real (length reference_traj)"

definition states_to_see_horizon :: "('p \<Rightarrow> 'p \<Rightarrow> real) \<Rightarrow> 'p list \<Rightarrow> real \<Rightarrow> error + int" where
  "states_to_see_horizon pose_dist reference_traj global_plan_look_ahead_distance =
     quotient_to_int global_plan_look_ahead_distance
       (interpolation_step_size pose_dist reference_traj)"

text \<open>
  Lines 230-232: \<open>if (local_goal_state_index >= reference_traj.poses.size() - 1)\<close>
  compares in \<open>size_t\<close>, so a negative candidate counts as a huge one.
\<close>

definition clamp_local_goal :: "nat \<Rightarrow> int \<Rightarrow> int" where
  "clamp_local_goal sz g =
     (if size_t_of_int g \<ge> size_minus_one sz then int_of_size_t (size_minus_one sz) else g)"

definition local_goal_state_index ::
  "('p \<Rightarrow> 'p \<Rightarrow> real) \<Rightarrow> 'p list \<Rightarrow> 'p \<Rightarrow> real \<Rightarrow> error + int" where
  "local_goal_state_index pose_dist reference_traj curr_robot_pose global_plan_look_ahead_distance =
     (case states_to_see_horizon pose_dist reference_traj global_plan_look_ahead_distance of
        Inl e \<Rightarrow> Inl e
      | Inr k \<Rightarrow>
          (case int_add (nearestStateIndex pose_dist reference_traj curr_robot_pose) k of
             Inl e \<Rightarrow> Inl e
           | Inr g \<Rightarrow> Inr (clamp_local_goal (length reference_traj) g)))"

text \<open>
  The states of the OMPL path are SE(2) states. \<open>rpy\<close> stands for
  \<open>getRPYfromMsgQuaternion\<close>, which yields roll, pitch and yaw.
\<close>

record SE2State =
  se2_x :: real
  se2_y :: real
  se2_yaw :: real

definition yaw_of :: "('q \<Rightarrow> real \<times> real \<times> real) \<Rightarrow> 'q \<Rightarrow> real" where
  "yaw_of rpy q = snd (snd (rpy q))"

definition se2_of_pose :: "('q \<Rightarrow> real \<times> real \<times> real) \<Rightarrow> 'q PoseStamped \<Rightarrow> SE2State" where
  "se2_of_pose rpy p =
     \<lparr>se2_x = pt_x (position p), se2_y = pt_y (position p), se2_yaw = yaw_of rpy (orientation p)\<rparr>"

text \<open>
  Lines 244-272: the two states appended to \<open>path\<close>. The first is taken from the robot
  pose when the gap of the two indices is below \<open>N\<close>, and from
  \<open>reference_traj.poses[nearsest_traj_state_index]\<close> otherwise; the second is
  \<open>reference_traj.poses[local_goal_state_index]\<close>.
\<close>

definition local_path_anchors ::
  "('q \<Rightarrow> real \<times> real \<times> real) \<Rightarrow> 'q PoseStamped \<Rightarrow> Parameters \<Rightarrow> 'q PoseStamped list
     \<Rightarrow> int \<Rightarrow> int \<Rightarrow> error + SE2State list" where
  "local_path_anchors rpy curr_robot_pose mpc_parameters reference_traj
       nearsest_traj_state_index local_goal_state_idx =
     (case (if local_goal_state_idx - nearsest_traj_state_index < N mpc_parameters
            then Inr curr_robot_pose
            else at_index reference_traj nearsest_traj_state_index) of
        Inl e \<Rightarrow> Inl e
      | Inr closest \<Rightarrow>
          (case at_index reference_traj local_goal_state_idx of
             Inl e \<Rightarrow> Inl e
           | Inr goal \<Rightarrow> Inr [se2_of_pose rpy closest, se2_of_pose rpy goal]))"

text \<open>\<open>path.interpolate\<close> takes an \<open>unsigned int\<close>: the \<open>int\<close> is converted modulo \<open>2 ^ 32\<close>.\<close>

definition unsigned_of_int :: "int \<Rightarrow> nat" where
  "unsigned_of_int i = nat (i mod 2 ^ 32)"

text \<open>Lines 286-290: one reference state per interpolated state; \<open>z\<close> keeps its default.\<close>

definition States_of_se2 :: "Parameters \<Rightarrow> SE2State \<Rightarrow> States" where
  "States_of_se2 mpc_parameters s =
     States0\<lparr>st_v := V_MAX mpc_parameters, st_x := se2_x s, st_y := se2_y s, st_psi := se2_yaw s\<rparr>"

text \<open>
  The whole function. \<open>interpolate\<close> stands for OMPL's \<open>PathGeometric::interpolate\<close>
  over the state space of \<open>si\<close>; it maps the states of the path and the requested
  count to the states of the path afterwards.
\<close>

definition getLocalInterpolatedReferenceStates ::
  "('q \<Rightarrow> real \<times> real \<times> real) \<Rightarrow> ('q PoseStamped \<Rightarrow> 'q PoseStamped \<Rightarrow> real)
     \<Rightarrow> (SE2State list \<Rightarrow> nat \<Rightarrow> SE2State list)
     \<Rightarrow> 'q PoseStamped \<Rightarrow> Parameters \<Rightarrow> 'q PoseStamped list \<Rightarrow> real \<Rightarrow> error + States list" where
  "getLocalInterpolatedReferenceStates rpy pose_dist interpolate
       curr_robot_pose mpc_parameters reference_traj global_plan_look_ahead_distance =
     (case local_goal_state_index pose_dist reference_traj curr_robot_pose
             global_plan_look_ahead_distance of
        Inl e \<Rightarrow> Inl e
      | Inr goal \<Rightarrow>
          (case local_path_anchors rpy curr_robot_pose mpc_parameters reference_traj
                  (nearestStateIndex pose_dist reference_traj curr_robot_pose) goal of
             Inl e \<Rightarrow> Inl e
           | Inr path \<Rightarrow>
               Inr (map (States_of_se2 mpc_parameters)
                      (interpolate path (unsigned_of_int (N mpc_parameters))))))"

text \<open>
  Modelled from the spec: \<open>PathGeometric::interpolate\<close> belongs to OMPL. The
  specification describes it as \<open>interpolate(anchors, count)\<close>: the curve through
  the anchors is resampled into exactly \<open>count\<close> states, uniformly by curve
  parameter. For the path of two states that this header builds, these are the first
  state, the states of the curve at the parameters \<open>j / (count - 1)\<close> for
  \<open>j = 1, \<dots>, count - 2\<close>, and the second state; a path that has \<open>count\<close> states
  or more already is left as it is. \<open>motion\<close> stands for the curve of the state
  space of \<open>si\<close> between two states.
\<close>

definition path_interpolate ::
  "(SE2State \<Rightarrow> SE2State \<Rightarrow> real \<Rightarrow> SE2State) \<Rightarrow> SE2State list \<Rightarrow> nat \<Rightarrow> SE2State list" where
  "path_interpolate motion path count =
     (case path of
        [a, b] \<Rightarrow>
          (if count < 2 then path
           else a # map (\<lambda>j. motion a b (real j / real (count - 1))) [1..<count - 1] @ [b])
      | _ \<Rightarrow> path)"

text \<open>In the concrete scenarios the curve is the straight segment between the two states.\<close>

definition se2_between :: "SE2State \<Rightarrow> SE2State \<Rightarrow> real \<Rightarrow> SE2State" where
  "se2_between a b t =
     \<lparr>se2_x = se2_x a + t * (se2_x b - se2_x a), se2_y = se2_y a + t * (se2_y b - se2_y a),
      se2_yaw = se2_yaw a + t * (se2_yaw b - se2_yaw a)\<rparr>"

definition interpolate_uniform :: "SE2State list \<Rightarrow> nat \<Rightarrow> SE2State list" where
  "interpolate_uniform = path_interpolate se2_between"

section \<open>\<open>trimObstaclesToN\<close>\<close>








section \<open>\<open>readjustGlobalPlanLocally\<close>\<close>

text \<open>
  \<open>slice(v, m, n)\<close> copies \<open>v[m .. n]\<close>, both ends included. Its iterators are
  \<open>v.cbegin() + m\<close> and \<open>v.cbegin() + n + 1\<close>; they denote a range of \<open>v\<close> only
  when \<open>0 \<le> m \<le> n + 1 \<le> v.size()\<close>.
\<close>

definition slice :: "'a list \<Rightarrow> int \<Rightarrow> int \<Rightarrow> error + 'a list" where
  "slice v m n =
     (if 0 \<le> m \<and> m \<le> n + 1 \<and> n + 1 \<le> int (length v)
      then Inr (take (nat (n + 1 - m)) (drop (nat m) v))
      else Inl IndexOutOfRange)"

text \<open>\<open>std::fmod\<close>: the remainder has the sign of the dividend. \<open>M_PI\<close> is modelled by \<open>pi\<close>.\<close>

definition fmod :: "real \<Rightarrow> real \<Rightarrow> real" where
  "fmod a b = a - b * real_of_int (trunc_int (a / b))"

text \<open>Lines 426-430; here the comparison with \<open>size() - 1\<close> is a strict one.\<close>

definition readjust_goal_index ::
  "('p \<Rightarrow> 'p \<Rightarrow> real) \<Rightarrow> 'p list \<Rightarrow> 'p \<Rightarrow> int \<Rightarrow> error + int" where
  "readjust_goal_index pose_dist reference_traj curr_robot_pose look_ahead_waypints =
     (case int_add (nearestStateIndex pose_dist reference_traj curr_robot_pose)
             look_ahead_waypints of
        Inl e \<Rightarrow> Inl e
      | Inr g \<Rightarrow>
          Inr (if size_t_of_int g > size_minus_one (length reference_traj)
               then int_of_size_t (size_minus_one (length reference_traj)) else g))"


text \<open>
  Lines 439-448: the loop returns from the function at the first pose whose heading,
  reduced by \<open>fmod\<close>, exceeds \<open>0.4\<close>; \<open>segments_in_row\<close> is \<open>False\<close> then.
\<close>

fun segments_in_row :: "('q \<Rightarrow> real \<times> real \<times> real) \<Rightarrow> 'q PoseStamped list \<Rightarrow> bool" where
  "segments_in_row rpy [] = True"
| "segments_in_row rpy (p # ps) =
     (if \<bar>fmod (yaw_of rpy (orientation p)) pi\<bar> > 4 / 10 then False
      else segments_in_row rpy ps)"

text \<open>Lines 449-476: the corners of the cropping box, as \<open>Eigen::Vector4f\<close>.\<close>

type_synonym Vector4f = "real \<times> real \<times> real \<times> real"

definition crop_corners ::
  "real \<Rightarrow> 'q PoseStamped \<Rightarrow> 'q PoseStamped \<Rightarrow> real \<Rightarrow> real \<Rightarrow> Vector4f \<times> Vector4f" where
  "crop_corners robot_yaw nearest_pose goal_pose inflate_y_cropping inflate_z_cropping =
     (if \<bar>robot_yaw\<bar> < 4 / 10
      then ((pt_x (position nearest_pose), pt_y (position nearest_pose) - inflate_y_cropping,
               pt_z (position nearest_pose) - inflate_z_cropping, 1),
            (pt_x (position goal_pose), pt_y (position goal_pose) + inflate_y_cropping,
               pt_z (position goal_pose) + inflate_z_cropping, 1))
      else ((pt_x (position goal_pose), pt_y (position goal_pose) - inflate_y_cropping,
               pt_z (position goal_pose) - inflate_z_cropping, 1),
            (pt_x (position nearest_pose), pt_y (position nearest_pose) + inflate_y_cropping,
               pt_z (position nearest_pose) + inflate_z_cropping, 1)))"

text \<open>Lines 495-499: the update of one pose.\<close>

definition recenter_pose :: "Point \<Rightarrow> 'q PoseStamped \<Rightarrow> 'q PoseStamped" where
  "recenter_pose center p =
     p\<lparr>position := (position p)
        \<lparr>pt_y := pt_y (position p) - (pt_y (position p) - pt_y center),
         pt_z := pt_z (position p) - (pt_z (position p) - pt_z center)\<rparr>\<rparr>"

text \<open>Lines 500-509: the state reported for a pose; \<open>v\<close> keeps its default.\<close>

definition state_of_pose :: "('q \<Rightarrow> real \<times> real \<times> real) \<Rightarrow> 'q PoseStamped \<Rightarrow> States" where
  "state_of_pose rpy p =
     States0\<lparr>st_x := pt_x (position p), st_y := pt_y (position p), st_z := pt_z (position p),
       st_psi := yaw_of rpy (orientation p)\<rparr>"

text \<open>
  Lines 493-510: the loop over \<open>i = nearsest_traj_state_index .. local_goal_state_index\<close>,
  here over the list of these indices. Its state is the path and \<open>readjusted_states\<close>.
\<close>

fun readjust_loop ::
  "('q \<Rightarrow> real \<times> real \<times> real) \<Rightarrow> Point \<Rightarrow> nat list \<Rightarrow> 'q PoseStamped list \<times> States list
     \<Rightarrow> 'q PoseStamped list \<times> States list" where
  "readjust_loop rpy center [] (reference_traj, readjusted_states) =
     (reference_traj, readjusted_states)"
| "readjust_loop rpy center (i # rest) (reference_traj, readjusted_states) =
     readjust_loop rpy center rest
       (reference_traj[i := recenter_pose center (reference_traj ! i)],
        readjusted_states @ [state_of_pose rpy (recenter_pose center (reference_traj ! i))])"

text \<open>
  The whole function. \<open>cropBox\<close> stands for \<open>vox_nav_utilities::cropBox\<close> and
  \<open>computeCentroid\<close> for \<open>pcl::computeCentroid\<close>, which is handed the cloud and the
  default-constructed point \<open>center\<close> and yields \<open>center\<close> afterwards. The path is
  updated in place in the source; the model returns it, together with what the
  function publishes: \<open>None\<close> when it returns at line 446, and otherwise the
  readjusted states and the cropped cloud.
\<close>

definition Point0 :: Point where
  "Point0 = \<lparr>pt_x = 0, pt_y = 0, pt_z = 0\<rparr>"

definition readjustGlobalPlanLocally ::
  "('q \<Rightarrow> real \<times> real \<times> real) \<Rightarrow> ('q PoseStamped \<Rightarrow> 'q PoseStamped \<Rightarrow> real)
     \<Rightarrow> (Point list \<Rightarrow> Vector4f \<Rightarrow> Vector4f \<Rightarrow> Point list) \<Rightarrow> (Point list \<Rightarrow> Point \<Rightarrow> Point)
     \<Rightarrow> 'q PoseStamped \<Rightarrow> Point list \<Rightarrow> 'q PoseStamped list \<Rightarrow> real \<Rightarrow> real \<Rightarrow> int
     \<Rightarrow> error + 'q PoseStamped list \<times> (States list \<times> Point list) option" where
  "readjustGlobalPlanLocally rpy pose_dist cropBox computeCentroid
       curr_robot_pose pcl_curr reference_traj inflate_y_cropping inflate_z_cropping
       look_ahead_waypints =
     (case readjust_goal_index pose_dist reference_traj curr_robot_pose look_ahead_waypints of
        Inl e \<Rightarrow> Inl e
      | Inr goal \<Rightarrow>
          (case slice reference_traj
                  (nearestStateIndex pose_dist reference_traj curr_robot_pose) goal of
             Inl e \<Rightarrow> Inl e
           | Inr vicinity \<Rightarrow>
               if \<not> segments_in_row rpy vicinity then Inr (reference_traj, None)
               else
                 (case at_index reference_traj
                         (nearestStateIndex pose_dist reference_traj curr_robot_pose) of
                    Inl e \<Rightarrow> Inl e
                  | Inr nearest_pose \<Rightarrow>
                      (case at_index reference_traj goal of
                         Inl e \<Rightarrow> Inl e
                       | Inr goal_pose \<Rightarrow>
                           (let corners = crop_corners (yaw_of rpy (orientation curr_robot_pose))
                                            nearest_pose goal_pose
                                            inflate_y_cropping inflate_z_cropping;
                                croppped_live_cloud = cropBox pcl_curr (fst corners) (snd corners);
                                center = computeCentroid croppped_live_cloud Point0;
                                looped = readjust_loop rpy center
                                  [nat (nearestStateIndex pose_dist reference_traj curr_robot_pose)
                                     ..< nat (goal + 1)]
                                  (reference_traj, [])
                            in Inr (fst looped, Some (snd looped, croppped_live_cloud)))))))"

text \<open>
  Modelled from the spec: \<open>vox_nav_utilities::cropBox\<close> keeps the points of the cloud
  inside the box spanned by the two corners; \<open>pcl::computeCentroid\<close> belongs to the
  Point Cloud Library: it writes the mean of the points and leaves \<open>center\<close> as it
  was for a cloud without points. Both instantiate the parameters in the concrete
  scenarios only.
\<close>

definition cropBox_inside :: "Point list \<Rightarrow> Vector4f \<Rightarrow> Vector4f \<Rightarrow> Point list" where
  "cropBox_inside cloud mn mx =
     filter (\<lambda>p. fst mn \<le> pt_x p \<and> pt_x p \<le> fst mx
              \<and> fst (snd mn) \<le> pt_y p \<and> pt_y p \<le> fst (snd mx)
              \<and> fst (snd (snd mn)) \<le> pt_z p \<and> pt_z p \<le> fst (snd (snd mx))) cloud"

definition computeCentroid_mean :: "Point list \<Rightarrow> Point \<Rightarrow> Point" where
  "computeCentroid_mean cloud center =
     (if cloud = [] then center
      else \<lparr>pt_x = sum_list (map pt_x cloud) / real (length cloud),
            pt_y = sum_list (map pt_y cloud) / real (length cloud),
            pt_z = sum_list (map pt_z cloud) / real (length cloud)\<rparr>)"

section \<open>Concrete scenarios\<close>

text \<open>
  In the scenarios an orientation is given by its yaw angle, and the path is the
  straight line of 11 poses one unit apart along \<open>+x\<close>, heading \<open>0\<close> everywhere.
\<close>

definition rpy_of_yaw :: "real \<Rightarrow> real \<times> real \<times> real" where
  "rpy_of_yaw psi = (0, 0, psi)"

definition straight_path :: "real PoseStamped list" where
  "straight_path = map (\<lambda>i. pose_at (real i) 0 0) [0..<11]"



text \<open>
  A path of three poses with heading \<open>0\<close>, the same path with the heading \<open>1.2\<close> at
  its second pose, and a cloud of one point.
\<close>

definition row_path :: "real PoseStamped list" where
  "row_path = [pose_at 0 1 0, pose_at 1 2 0, pose_at 2 3 0]"


definition row_cloud :: "Point list" where
  "row_cloud = [\<lparr>pt_x = 1 / 2, pt_y = 3 / 2, pt_z = 1 / 5\<rparr>]"

section \<open>Facts about the machine arithmetic\<close>

lemma size_t_of_int_nonneg: "0 \<le> i \<Longrightarrow> i \<le> INT_MAX \<Longrightarrow> size_t_of_int i = nat i"
  by (simp add: size_t_of_int_def INT_MAX_def)

lemma size_t_of_int_neg: "INT_MIN \<le> i \<Longrightarrow> i < 0 \<Longrightarrow> size_t_of_int i = nat (i + 2 ^ 64)"
proof -
  assume a: "INT_MIN \<le> i" "i < 0"
  have "i mod 2 ^ 64 = (i + 2 ^ 64) mod 2 ^ 64" by simp
  also have "\<dots> = i + 2 ^ 64"
    using a by (intro mod_pos_pos_trivial) (simp_all add: INT_MIN_def)
  finally show ?thesis by (simp add: size_t_of_int_def)
qed

lemma size_minus_one_pos: "0 < n \<Longrightarrow> int n \<le> INT_MAX \<Longrightarrow> size_minus_one n = n - 1"
  by (simp add: size_minus_one_def INT_MAX_def nat_diff_distrib')

lemma int_of_size_t_small: "int n \<le> INT_MAX \<Longrightarrow> int_of_size_t n = int n"
  by (simp add: int_of_size_t_def INT_MAX_def)

text \<open>
  The clamp of lines 230-232 yields an index of a non-empty path, for every candidate
  of type \<open>int\<close>.
\<close>

lemma clamp_local_goal_range:
  assumes "0 < sz" "int sz \<le> INT_MAX" "INT_MIN \<le> g" "g \<le> INT_MAX"
  shows "0 \<le> clamp_local_goal sz g \<and> clamp_local_goal sz g < int sz"
proof (cases "0 \<le> g")
  case True
  with assms show ?thesis
    by (auto simp: clamp_local_goal_def size_t_of_int_nonneg size_minus_one_pos int_of_size_t_small)
next
  case False
  with assms have "size_t_of_int g \<ge> size_minus_one sz"
    by (simp add: size_t_of_int_neg size_minus_one_pos INT_MIN_def INT_MAX_def)
  with assms show ?thesis
    by (simp add: clamp_local_goal_def size_minus_one_pos int_of_size_t_small)
qed

section \<open>Facts about the nearest-state search\<close>

text \<open>The scan returns \<open>-1\<close> or an index of the path.\<close>

lemma nearest_scan_range:
  "- 1 \<le> idx \<Longrightarrow> idx < i \<Longrightarrow> 0 \<le> i \<Longrightarrow>
   - 1 \<le> fst (nearest_scan pose_dist robot ps i (idx, d))
   \<and> fst (nearest_scan pose_dist robot ps i (idx, d)) < i + int (length ps)"
proof (induction ps arbitrary: i idx d)
  case Nil
  then show ?case by simp
next
  case (Cons p ps)
  have a: "- 1 \<le> fst (nearest_scan pose_dist robot ps (i + 1) (i, e))
     \<and> fst (nearest_scan pose_dist robot ps (i + 1) (i, e)) < (i + 1) + int (length ps)" for e
    using Cons.prems by (intro Cons.IH) simp_all
  have b: "- 1 \<le> fst (nearest_scan pose_dist robot ps (i + 1) (idx, d))
     \<and> fst (nearest_scan pose_dist robot ps (i + 1) (idx, d)) < (i + 1) + int (length ps)"
    using Cons.prems by (intro Cons.IH) simp_all
  show ?case using a [of "trunc_int (pose_dist p robot)"] b by (simp add: add.assoc)
qed

lemma nearestStateIndex_range:
  "- 1 \<le> nearestStateIndex pose_dist traj robot
   \<and> nearestStateIndex pose_dist traj robot < int (length traj)"
  using nearest_scan_range [of "- 1" 0 pose_dist robot traj 10000]
  by (simp add: nearestStateIndex_def)

text \<open>An index is found as soon as one pose is nearer than the initial \<open>10000\<close>.\<close>

lemma nearest_scan_found:
  "0 \<le> idx \<Longrightarrow> 0 \<le> i \<Longrightarrow> 0 \<le> fst (nearest_scan pose_dist robot ps i (idx, d))"
  by (induction ps arbitrary: i idx d) simp_all

lemma nearest_scan_within:
  "0 \<le> i \<Longrightarrow> p \<in> set ps \<Longrightarrow> pose_dist p robot < real_of_int d
    \<Longrightarrow> 0 \<le> fst (nearest_scan pose_dist robot ps i (idx, d))"
proof (induction ps arbitrary: i idx)
  case Nil
  then show ?case by simp
next
  case (Cons a ps)
  show ?case
  proof (cases "pose_dist a robot < real_of_int d")
    case True
    then show ?thesis using Cons.prems(1) by (simp add: nearest_scan_found)
  next
    case False
    with Cons.prems have "p \<in> set ps" by auto
    with False Cons show ?thesis by simp
  qed
qed

lemma nearestStateIndex_found:
  "p \<in> set traj \<Longrightarrow> pose_dist p robot < 10000 \<Longrightarrow> 0 \<le> nearestStateIndex pose_dist traj robot"
  using nearest_scan_within [of 0 p traj pose_dist robot 10000 "- 1"]
  by (simp add: nearestStateIndex_def)


lemma planar_dist_same_y:
  "getEuclidianDistBetweenPoses (pose_at a c q) (pose_at b c q') = \<bar>a - b\<bar>"
  by (simp add: getEuclidianDistBetweenPoses_def pose_at_def)

text \<open>
  C3. The claim: for a non-empty path, \<open>nearestStateIndex\<close> returns an index of a pose at
  minimal distance from the robot, the smallest one on ties. The source keeps the best
  distance in an \<open>int\<close>, so a later pose is taken only when it is nearer than the
  truncated best distance. For the path with poses at \<open>(3/2, 0)\<close> and \<open>(6/5, 0)\<close> and the
  robot at the origin the function returns index 0, although the pose at index 1 is
  strictly nearer.
\<close>

theorem nearestStateIndex_truncated_best:
  "nearestStateIndex getEuclidianDistBetweenPoses
     [pose_at (3 / 2) 0 (0::real), pose_at (6 / 5) 0 0] (pose_at 0 0 0) = 0
   \<and> getEuclidianDistBetweenPoses (pose_at (6 / 5) 0 (0::real)) (pose_at 0 0 0)
     < getEuclidianDistBetweenPoses (pose_at (3 / 2) 0 (0::real)) (pose_at 0 0 0)"
  by (simp add: nearestStateIndex_def planar_dist_same_y trunc_int_def)

section \<open>Facts about \<open>regulateMaxSpeed\<close>\<close>

lemma double_clamp_range:
  "double_le lo hi \<Longrightarrow> v \<noteq> NaN \<Longrightarrow>
   double_le lo (if double_less hi v then hi else if double_less v lo then lo else v)
   \<and> double_le (if double_less hi v then hi else if double_less v lo then lo else v) hi"
  by (cases lo; cases hi; cases v) simp_all

lemma double_in_range:
  "double_le lo v \<Longrightarrow> double_le v hi \<Longrightarrow> \<not> double_less hi v \<and> \<not> double_less v lo"
  by (cases lo; cases hi; cases v) simp_all

lemma double_nan_compare: "\<not> double_less hi NaN \<and> \<not> double_less NaN lo"
  by (cases lo; cases hi) simp_all

lemma regulateMaxSpeed_x:
  "v3_x (linear (regulateMaxSpeed tw p))
     = (if double_less (V_MAX p) (v3_x (linear tw)) then V_MAX p
        else if double_less (v3_x (linear tw)) (V_MIN p) then V_MIN p
        else v3_x (linear tw))"
  by (simp add: regulateMaxSpeed_def)

lemma regulateMaxSpeed_same:
  "\<not> double_less (V_MAX p) (v3_x (linear tw)) \<Longrightarrow> \<not> double_less (v3_x (linear tw)) (V_MIN p)
     \<Longrightarrow> regulateMaxSpeed tw p = tw"
  by (simp add: regulateMaxSpeed_def)

lemma regulateMaxSpeed_others:
  "angular (regulateMaxSpeed tw p) = angular tw"
  "v3_y (linear (regulateMaxSpeed tw p)) = v3_y (linear tw)"
  "v3_z (linear (regulateMaxSpeed tw p)) = v3_z (linear tw)"
  by (simp_all add: regulateMaxSpeed_def)


text \<open>
  C9, as stated: for every commanded velocity and every parameter set with
  \<open>V_MIN \<le> V_MAX\<close> the linear velocity that \<open>regulateMaxSpeed\<close> leaves lies in
  \<open>[V_MIN, V_MAX]\<close>. A commanded velocity that is a NaN fails both comparisons of
  lines 402 and 404 and is left as it is, and a NaN lies in no range.
\<close>

theorem regulateMaxSpeed_keeps_nan:
  "double_le (V_MIN Parameters0) (V_MAX Parameters0)
   \<and> v3_x (linear (regulateMaxSpeed
        \<lparr>linear = \<lparr>v3_x = NaN, v3_y = Finite 0, v3_z = Finite 0\<rparr>,
         angular = \<lparr>v3_x = Finite 0, v3_y = Finite 0, v3_z = Finite 1\<rparr>\<rparr>
        Parameters0)) = NaN
   \<and> \<not> double_le (V_MIN Parameters0)
        (v3_x (linear (regulateMaxSpeed
          \<lparr>linear = \<lparr>v3_x = NaN, v3_y = Finite 0, v3_z = Finite 0\<rparr>,
           angular = \<lparr>v3_x = Finite 0, v3_y = Finite 0, v3_z = Finite 1\<rparr>\<rparr>
          Parameters0)))
   \<and> \<not> double_le
        (v3_x (linear (regulateMaxSpeed
          \<lparr>linear = \<lparr>v3_x = NaN, v3_y = Finite 0, v3_z = Finite 0\<rparr>,
           angular = \<lparr>v3_x = Finite 0, v3_y = Finite 0, v3_z = Finite 1\<rparr>\<rparr>
          Parameters0)))
        (V_MAX Parameters0)"
  by (simp add: regulateMaxSpeed_def Parameters0_def)

text \<open>
  C9, amended: for every parameter set with \<open>V_MIN \<le> V_MAX\<close> and every commanded
  velocity that is not a NaN (the infinities included), the linear velocity that
  \<open>regulateMaxSpeed\<close> leaves lies in \<open>[V_MIN, V_MAX]\<close>; when the commanded velocity
  already lies in that range the twist is returned as it is. A commanded velocity
  that is a NaN is returned as it is, too. The function is total: it has no error
  result, and it touches no other field of the twist.
\<close>

theorem regulateMaxSpeed_clamps:
  assumes "double_le (V_MIN mpc_parameters) (V_MAX mpc_parameters)"
  shows "(v3_x (linear tw) \<noteq> NaN \<longrightarrow>
            double_le (V_MIN mpc_parameters) (v3_x (linear (regulateMaxSpeed tw mpc_parameters)))
          \<and> double_le (v3_x (linear (regulateMaxSpeed tw mpc_parameters))) (V_MAX mpc_parameters))
       \<and> (double_le (V_MIN mpc_parameters) (v3_x (linear tw))
            \<and> double_le (v3_x (linear tw)) (V_MAX mpc_parameters)
            \<longrightarrow> regulateMaxSpeed tw mpc_parameters = tw)
       \<and> (v3_x (linear tw) = NaN \<longrightarrow> regulateMaxSpeed tw mpc_parameters = tw)
       \<and> angular (regulateMaxSpeed tw mpc_parameters) = angular tw
       \<and> v3_y (linear (regulateMaxSpeed tw mpc_parameters)) = v3_y (linear tw)
       \<and> v3_z (linear (regulateMaxSpeed tw mpc_parameters)) = v3_z (linear tw)"
proof -
  have c1: "v3_x (linear tw) \<noteq> NaN \<longrightarrow>
            double_le (V_MIN mpc_parameters) (v3_x (linear (regulateMaxSpeed tw mpc_parameters)))
          \<and> double_le (v3_x (linear (regulateMaxSpeed tw mpc_parameters))) (V_MAX mpc_parameters)"
    unfolding regulateMaxSpeed_x using double_clamp_range [OF assms] by blast
  have c2: "double_le (V_MIN mpc_parameters) (v3_x (linear tw))
            \<and> double_le (v3_x (linear tw)) (V_MAX mpc_parameters)
            \<longrightarrow> regulateMaxSpeed tw mpc_parameters = tw"
    using double_in_range regulateMaxSpeed_same by blast
  have c3: "v3_x (linear tw) = NaN \<longrightarrow> regulateMaxSpeed tw mpc_parameters = tw"
    using double_nan_compare regulateMaxSpeed_same by metis
  from c1 c2 c3 show ?thesis
    by (simp add: regulateMaxSpeed_others)
qed

theorem regulateMaxSpeed_clamps_witness:
  "double_le (V_MIN Parameters0) (V_MAX Parameters0)
   \<and> v3_x (linear (regulateMaxSpeed
        \<lparr>linear = \<lparr>v3_x = Finite 25, v3_y = Finite 0, v3_z = Finite 0\<rparr>,
         angular = \<lparr>v3_x = Finite 0, v3_y = Finite 0, v3_z = Finite 1\<rparr>\<rparr>
        Parameters0)) = Finite 10
   \<and> v3_x (linear (regulateMaxSpeed
        \<lparr>linear = \<lparr>v3_x = MinusInfinity, v3_y = Finite 0, v3_z = Finite 0\<rparr>,
         angular = \<lparr>v3_x = Finite 0, v3_y = Finite 0, v3_z = Finite 1\<rparr>\<rparr>
        Parameters0)) = Finite (- 10)
   \<and> regulateMaxSpeed
        \<lparr>linear = \<lparr>v3_x = Finite 3, v3_y = Finite 0, v3_z = Finite 0\<rparr>,
         angular = \<lparr>v3_x = Finite 0, v3_y = Finite 0, v3_z = Finite 1\<rparr>\<rparr>
        Parameters0
      = \<lparr>linear = \<lparr>v3_x = Finite 3, v3_y = Finite 0, v3_z = Finite 0\<rparr>,
         angular = \<lparr>v3_x = Finite 0, v3_y = Finite 0, v3_z = Finite 1\<rparr>\<rparr>"
proof -
  have h: "double_le (V_MIN Parameters0) (V_MAX Parameters0)"
    by (simp add: Parameters0_def)
  have v: "V_MIN Parameters0 = Finite (- 10)" "V_MAX Parameters0 = Finite 10"
    by (simp_all add: Parameters0_def)
  show ?thesis
    using h regulateMaxSpeed_clamps [OF h,
      of "\<lparr>linear = \<lparr>v3_x = Finite 3, v3_y = Finite 0, v3_z = Finite 0\<rparr>,
           angular = \<lparr>v3_x = Finite 0, v3_y = Finite 0, v3_z = Finite 1\<rparr>\<rparr>"]
    by (simp add: regulateMaxSpeed_def v)
qed

section \<open>Facts about the horizon window\<close>

text \<open>
  Whenever the local-goal index is computed for a path whose size fits an \<open>int\<close>, it
  is an index of the path: a candidate that overruns the path, and a negative one as
  well, ends at the last index.
\<close>

lemma local_goal_in_range:
  assumes sz: "int (length traj) \<le> INT_MAX"
    and g: "local_goal_state_index pose_dist traj robot la = Inr goal"
  shows "0 \<le> goal \<and> goal < int (length traj)"
proof -
  from g obtain k where k: "states_to_see_horizon pose_dist traj la = Inr k"
    by (auto simp: local_goal_state_index_def split: sum.splits)
  have "traj \<noteq> []"
    using k by (auto simp: states_to_see_horizon_def quotient_to_int_def
        interpolation_step_size_def split: if_splits)
  from g k obtain c where c: "int_add (nearestStateIndex pose_dist traj robot) k = Inr c"
    and goal: "goal = clamp_local_goal (length traj) c"
    by (auto simp: local_goal_state_index_def split: sum.splits)
  from c have "INT_MIN \<le> c" "c \<le> INT_MAX"
    by (auto simp: int_add_def split: if_splits)
  with sz \<open>traj \<noteq> []\<close> show ?thesis
    unfolding goal by (intro clamp_local_goal_range) simp_all
qed

subsection \<open>The straight path of 11 poses\<close>

lemma straight_path_eq:
  "straight_path = [pose_at 0 0 0, pose_at 1 0 0, pose_at 2 0 0, pose_at 3 0 0, pose_at 4 0 0,
     pose_at 5 0 0, pose_at 6 0 0, pose_at 7 0 0, pose_at 8 0 0, pose_at 9 0 0, pose_at 10 0 0]"
  by (simp add: straight_path_def upt_rec)

lemma straight_nearest:
  "nearestStateIndex getEuclidianDistBetweenPoses straight_path (pose_at 0 0 0) = 0"
  by (simp add: straight_path_eq nearestStateIndex_def planar_dist_same_y trunc_int_def)

lemma straight_length:
  "path_euclidian_length getEuclidianDistBetweenPoses straight_path = 10"
  by (simp add: straight_path_eq path_euclidian_length_def planar_dist_same_y)

lemma straight_step:
  "interpolation_step_size getEuclidianDistBetweenPoses straight_path = 10 / 11"
  by (simp add: interpolation_step_size_def straight_length) (simp add: straight_path_def)

lemma straight_see:
  "states_to_see_horizon getEuclidianDistBetweenPoses straight_path 5 = Inr 5"
  by (simp add: states_to_see_horizon_def straight_step quotient_to_int_def double_to_int_def
      trunc_int_def INT_MIN_def INT_MAX_def)

lemma straight_goal:
  "local_goal_state_index getEuclidianDistBetweenPoses straight_path (pose_at 0 0 0) 5 = Inr 5"
  by (simp add: local_goal_state_index_def straight_see straight_nearest int_add_def
      INT_MIN_def INT_MAX_def clamp_local_goal_def size_t_of_int_def size_minus_one_def)
     (simp add: straight_path_def)

text \<open>
  C8, as stated: on the straight path of 11 poses, with the robot at the origin and a
  lookahead distance of 5, the average spacing is \<open>1.0\<close>. The source divides the
  length of the path, which is 10, by the number of poses, which is 11, so the
  spacing is not \<open>1\<close>.
\<close>

theorem straight_path_spacing_not_one:
  "interpolation_step_size getEuclidianDistBetweenPoses straight_path \<noteq> 1"
  by (simp add: straight_step)

text \<open>
  C8, amended: on the straight path of 11 poses, with the robot at the origin and a
  lookahead distance of 5, the nearest-state index is 0, the length of the path is
  10, the average spacing is the length divided by the number of poses, \<open>10 / 11\<close>,
  the number of lookahead waypoints is 5 (\<open>5.5\<close> truncated) and the local-goal index
  is 5.
\<close>

theorem horizon_window_straight_path:
  "length straight_path = 11
   \<and> nearestStateIndex getEuclidianDistBetweenPoses straight_path (pose_at 0 0 0) = 0
   \<and> path_euclidian_length getEuclidianDistBetweenPoses straight_path = 10
   \<and> interpolation_step_size getEuclidianDistBetweenPoses straight_path = 10 / 11
   \<and> states_to_see_horizon getEuclidianDistBetweenPoses straight_path 5 = Inr 5
   \<and> local_goal_state_index getEuclidianDistBetweenPoses straight_path (pose_at 0 0 0) 5 = Inr 5"
  by (simp add: straight_nearest straight_length straight_step straight_see straight_goal)
     (simp add: straight_path_def)

text \<open>
  C4. The claim: when the average spacing is not positive, as for a path of a single
  pose, the division by the spacing is guarded and the local-goal index becomes the
  last index of the path. The source has no such guard (lines 227-228): for every
  path of a single pose, whatever the distance function, the robot pose and the
  lookahead distance, the spacing is \<open>0\<close>, the quotient of line 228 is an infinity or
  a NaN, its conversion to \<open>int\<close> is undefined, and so no local-goal index and no
  reference states are defined.
\<close>

theorem single_pose_window_undefined:
  "interpolation_step_size pose_dist [p] = 0
   \<and> states_to_see_horizon pose_dist [p] la = Inl UndefinedConversion
   \<and> local_goal_state_index pose_dist [p] robot la = Inl UndefinedConversion
   \<and> getLocalInterpolatedReferenceStates rpy pose_dist interpolate robot params [p] la
       = Inl UndefinedConversion"
  by (simp add: getLocalInterpolatedReferenceStates_def local_goal_state_index_def
      states_to_see_horizon_def quotient_to_int_def interpolation_step_size_def
      path_euclidian_length_def)

lemma straight_nearest_offset:
  "nearestStateIndex getEuclidianDistBetweenPoses straight_path (pose_at (1 / 4) 0 (1 / 10)) = 0"
  by (simp add: straight_path_eq nearestStateIndex_def planar_dist_same_y trunc_int_def)

lemma straight_goal_offset:
  "local_goal_state_index getEuclidianDistBetweenPoses straight_path (pose_at (1 / 4) 0 (1 / 10)) 5
     = Inr 5"
  by (simp add: local_goal_state_index_def straight_see straight_nearest_offset int_add_def
      INT_MIN_def INT_MAX_def clamp_local_goal_def size_t_of_int_def size_minus_one_def)
     (simp add: straight_path_def)

section \<open>Facts about the reference interpolator\<close>

lemma unsigned_of_int_N: "0 \<le> n \<Longrightarrow> n \<le> INT_MAX \<Longrightarrow> unsigned_of_int n = nat n"
  by (simp add: unsigned_of_int_def INT_MAX_def)

lemma path_interpolate_length:
  "2 \<le> n \<Longrightarrow> length (path_interpolate motion [a, b] n) = n"
  by (simp add: path_interpolate_def)

lemma local_path_anchors_two:
  "local_path_anchors rpy curr_robot_pose mpc_parameters reference_traj nearest goal = Inr path
     \<Longrightarrow> \<exists>a b. path = [a, b]"
  by (auto simp: local_path_anchors_def split: sum.splits)

text \<open>
  Whenever the local-goal index is computed and the pose of the first anchor can be
  read, the function returns the interpolation of exactly two states.
\<close>

lemma reference_states_from_anchors:
  assumes sz: "int (length reference_traj) \<le> INT_MAX"
    and goal: "local_goal_state_index pose_dist reference_traj curr_robot_pose la = Inr goal"
    and near: "0 \<le> nearestStateIndex pose_dist reference_traj curr_robot_pose
               \<or> goal - nearestStateIndex pose_dist reference_traj curr_robot_pose
                    < N mpc_parameters"
  shows "getLocalInterpolatedReferenceStates rpy pose_dist interpolate curr_robot_pose
           mpc_parameters reference_traj la
         = Inr (map (States_of_se2 mpc_parameters)
             (interpolate
               [se2_of_pose rpy
                  (if goal - nearestStateIndex pose_dist reference_traj curr_robot_pose
                        < N mpc_parameters
                   then curr_robot_pose
                   else reference_traj
                          ! nat (nearestStateIndex pose_dist reference_traj curr_robot_pose)),
                se2_of_pose rpy (reference_traj ! nat goal)]
               (unsigned_of_int (N mpc_parameters))))"
proof -
  have g: "0 \<le> goal \<and> goal < int (length reference_traj)"
    using local_goal_in_range [OF sz goal] .
  have n: "nearestStateIndex pose_dist reference_traj curr_robot_pose
             < int (length reference_traj)"
    using nearestStateIndex_range [of pose_dist reference_traj curr_robot_pose] by simp
  show ?thesis
    using g n near goal
    by (auto simp: getLocalInterpolatedReferenceStates_def local_path_anchors_def at_index_def)
qed

text \<open>
  C1. For every path with at least 2 poses and every \<open>N \<ge> 2\<close> (path size and \<open>N\<close>
  being values of type \<open>int\<close>), every list of reference states that
  \<open>getLocalInterpolatedReferenceStates\<close> returns has exactly \<open>N\<close> states, whatever
  the curve of the state space; and the function returns such a list whenever its
  two indices are computed and the pose of its first anchor can be read, that is,
  whenever the run reaches neither the undefined conversion of line 228 nor a read
  outside the path.
\<close>

theorem reference_states_length:
  assumes "2 \<le> length reference_traj" and "int (length reference_traj) \<le> INT_MAX"
    and "2 \<le> N mpc_parameters" and "N mpc_parameters \<le> INT_MAX"
  shows "(\<forall>states.
            getLocalInterpolatedReferenceStates rpy pose_dist (path_interpolate motion)
              curr_robot_pose mpc_parameters reference_traj la = Inr states
            \<longrightarrow> int (length states) = N mpc_parameters)
       \<and> (\<forall>goal.
            local_goal_state_index pose_dist reference_traj curr_robot_pose la = Inr goal
            \<and> (0 \<le> nearestStateIndex pose_dist reference_traj curr_robot_pose
                 \<or> goal - nearestStateIndex pose_dist reference_traj curr_robot_pose
                      < N mpc_parameters)
            \<longrightarrow> (\<exists>states.
                   getLocalInterpolatedReferenceStates rpy pose_dist (path_interpolate motion)
                     curr_robot_pose mpc_parameters reference_traj la = Inr states
                   \<and> int (length states) = N mpc_parameters))"
proof -
  have n: "unsigned_of_int (N mpc_parameters) = nat (N mpc_parameters)"
    "2 \<le> nat (N mpc_parameters)"
    using assms(3,4) by (simp_all add: unsigned_of_int_N)
  have returned: "int (length states) = N mpc_parameters"
    if "getLocalInterpolatedReferenceStates rpy pose_dist (path_interpolate motion)
          curr_robot_pose mpc_parameters reference_traj la = Inr states" for states
  proof -
    from that obtain goal path where
      "local_path_anchors rpy curr_robot_pose mpc_parameters reference_traj
         (nearestStateIndex pose_dist reference_traj curr_robot_pose) goal = Inr path"
      and st: "states = map (States_of_se2 mpc_parameters)
                 (path_interpolate motion path (unsigned_of_int (N mpc_parameters)))"
      by (auto simp: getLocalInterpolatedReferenceStates_def split: sum.splits)
    then obtain a b where "path = [a, b]"
      using local_path_anchors_two by blast
    with st n assms(3) show ?thesis
      by (simp add: path_interpolate_length)
  qed
  have defined: "\<exists>states.
      getLocalInterpolatedReferenceStates rpy pose_dist (path_interpolate motion)
        curr_robot_pose mpc_parameters reference_traj la = Inr states
      \<and> int (length states) = N mpc_parameters"
    if "local_goal_state_index pose_dist reference_traj curr_robot_pose la = Inr goal"
      and "0 \<le> nearestStateIndex pose_dist reference_traj curr_robot_pose
           \<or> goal - nearestStateIndex pose_dist reference_traj curr_robot_pose
               < N mpc_parameters" for goal
    using reference_states_from_anchors [OF assms(2) that, of rpy "path_interpolate motion"]
      n assms(3)
    by (simp add: path_interpolate_length)
  from returned defined show ?thesis by blast
qed

theorem reference_states_length_witness:
  "2 \<le> length straight_path \<and> int (length straight_path) \<le> INT_MAX
   \<and> 2 \<le> N Parameters0 \<and> N Parameters0 \<le> INT_MAX
   \<and> local_goal_state_index getEuclidianDistBetweenPoses straight_path (pose_at 0 0 0) 5 = Inr 5
   \<and> 0 \<le> nearestStateIndex getEuclidianDistBetweenPoses straight_path (pose_at 0 0 0)
   \<and> (\<exists>states. getLocalInterpolatedReferenceStates rpy_of_yaw getEuclidianDistBetweenPoses
          (path_interpolate se2_between) (pose_at 0 0 0) Parameters0 straight_path 5 = Inr states
        \<and> int (length states) = 10)"
proof -
  have h1: "2 \<le> length straight_path" "int (length straight_path) \<le> INT_MAX"
    by (simp_all add: straight_path_def INT_MAX_def)
  have h2: "2 \<le> N Parameters0" "N Parameters0 \<le> INT_MAX"
    by (simp_all add: Parameters0_def INT_MAX_def)
  have n10: "N Parameters0 = 10" by (simp add: Parameters0_def)
  show ?thesis
    using h1 h2 straight_goal straight_nearest
      reference_states_length [where motion = se2_between and rpy = rpy_of_yaw
        and mpc_parameters = Parameters0
        and pose_dist = getEuclidianDistBetweenPoses
        and curr_robot_pose = "pose_at 0 0 0" and la = 5, OF h1 h2]
    by (simp add: n10)
qed

text \<open>
  C7. Whenever the two indices are computed and the pose of the first anchor can be
  read, the path handed to the interpolation consists of exactly two states. If the
  local-goal index minus the nearest-state index is smaller than \<open>N\<close>, the first
  state is the position and yaw of the current robot pose; otherwise it is the
  position and yaw of the path pose at the nearest-state index. In both cases the
  second state is the position and yaw of the path pose at the local-goal index.
\<close>

theorem anchor_selection:
  assumes "int (length reference_traj) \<le> INT_MAX"
    and "local_goal_state_index pose_dist reference_traj curr_robot_pose la = Inr goal"
    and "0 \<le> nearestStateIndex pose_dist reference_traj curr_robot_pose
         \<or> goal - nearestStateIndex pose_dist reference_traj curr_robot_pose < N mpc_parameters"
  shows "\<exists>first.
      local_path_anchors rpy curr_robot_pose mpc_parameters reference_traj
          (nearestStateIndex pose_dist reference_traj curr_robot_pose) goal
        = Inr [first,
               \<lparr>se2_x = pt_x (position (reference_traj ! nat goal)),
                se2_y = pt_y (position (reference_traj ! nat goal)),
                se2_yaw = yaw_of rpy (orientation (reference_traj ! nat goal))\<rparr>]
      \<and> getLocalInterpolatedReferenceStates rpy pose_dist interpolate curr_robot_pose
          mpc_parameters reference_traj la
        = Inr (map (States_of_se2 mpc_parameters)
            (interpolate
               [first,
                \<lparr>se2_x = pt_x (position (reference_traj ! nat goal)),
                 se2_y = pt_y (position (reference_traj ! nat goal)),
                 se2_yaw = yaw_of rpy (orientation (reference_traj ! nat goal))\<rparr>]
               (unsigned_of_int (N mpc_parameters))))
      \<and> (goal - nearestStateIndex pose_dist reference_traj curr_robot_pose < N mpc_parameters
           \<longrightarrow> first = \<lparr>se2_x = pt_x (position curr_robot_pose),
                        se2_y = pt_y (position curr_robot_pose),
                        se2_yaw = yaw_of rpy (orientation curr_robot_pose)\<rparr>)
      \<and> (\<not> goal - nearestStateIndex pose_dist reference_traj curr_robot_pose < N mpc_parameters
           \<longrightarrow> first =
                 \<lparr>se2_x = pt_x (position (reference_traj
                     ! nat (nearestStateIndex pose_dist reference_traj curr_robot_pose))),
                  se2_y = pt_y (position (reference_traj
                     ! nat (nearestStateIndex pose_dist reference_traj curr_robot_pose))),
                  se2_yaw = yaw_of rpy (orientation (reference_traj
                     ! nat (nearestStateIndex pose_dist reference_traj curr_robot_pose)))\<rparr>)"
proof -
  have g: "0 \<le> goal \<and> goal < int (length reference_traj)"
    using local_goal_in_range [OF assms(1,2)] .
  have n: "nearestStateIndex pose_dist reference_traj curr_robot_pose
             < int (length reference_traj)"
    using nearestStateIndex_range [of pose_dist reference_traj curr_robot_pose] by simp
  show ?thesis
    using g n assms(3)
    by (auto simp: reference_states_from_anchors [OF assms] local_path_anchors_def
        at_index_def se2_of_pose_def)
qed

theorem anchor_selection_witness:
  "int (length straight_path) \<le> INT_MAX
   \<and> local_goal_state_index getEuclidianDistBetweenPoses straight_path
        (pose_at (1 / 4) 0 (1 / 10)) 5 = Inr 5
   \<and> nearestStateIndex getEuclidianDistBetweenPoses straight_path (pose_at (1 / 4) 0 (1 / 10)) = 0
   \<and> local_path_anchors rpy_of_yaw (pose_at (1 / 4) 0 (1 / 10)) Parameters0 straight_path 0 5
       = Inr [\<lparr>se2_x = 1 / 4, se2_y = 0, se2_yaw = 1 / 10\<rparr>, \<lparr>se2_x = 5, se2_y = 0, se2_yaw = 0\<rparr>]
   \<and> local_path_anchors rpy_of_yaw (pose_at (1 / 4) 0 (1 / 10)) (Parameters0\<lparr>N := 2\<rparr>)
         straight_path 0 5
       = Inr [\<lparr>se2_x = 0, se2_y = 0, se2_yaw = 0\<rparr>, \<lparr>se2_x = 5, se2_y = 0, se2_yaw = 0\<rparr>]"
proof -
  have h1: "int (length straight_path) \<le> INT_MAX"
    by (simp add: straight_path_def INT_MAX_def)
  have h3: "0 \<le> nearestStateIndex getEuclidianDistBetweenPoses straight_path
                   (pose_at (1 / 4) 0 (1 / 10))
      \<or> 5 - nearestStateIndex getEuclidianDistBetweenPoses straight_path
               (pose_at (1 / 4) 0 (1 / 10)) < N p" for p
    by (simp add: straight_nearest_offset)
  have nth: "straight_path ! 0 = pose_at 0 0 0" "straight_path ! 5 = pose_at 5 0 0"
    by (simp_all add: straight_path_eq)
  show ?thesis
    using h1 straight_goal_offset straight_nearest_offset
      anchor_selection [where rpy = rpy_of_yaw and interpolate = interpolate_uniform
        and mpc_parameters = Parameters0, OF h1 straight_goal_offset h3]
      anchor_selection [where rpy = rpy_of_yaw and interpolate = interpolate_uniform
        and mpc_parameters = "Parameters0\<lparr>N := 2\<rparr>", OF h1 straight_goal_offset h3]
    by (auto simp: nth pose_at_def yaw_of_def rpy_of_yaw_def Parameters0_def)
qed

section \<open>Facts about \<open>trimObstaclesToN\<close>\<close>









section \<open>Facts about \<open>readjustGlobalPlanLocally\<close>\<close>


lemma recenter_pose_fields:
  "stamp (recenter_pose c p) = stamp p" "frame_id (recenter_pose c p) = frame_id p"
  "orientation (recenter_pose c p) = orientation p"
  "pt_x (position (recenter_pose c p)) = pt_x (position p)"
  "pt_y (position (recenter_pose c p)) = pt_y c"
  "pt_z (position (recenter_pose c p)) = pt_z c"
  by (simp_all add: recenter_pose_def)

lemma recenter_pose_twice: "recenter_pose c (recenter_pose c p) = recenter_pose c p"
  by (simp add: recenter_pose_def)

lemma readjust_loop_length:
  "length (fst (readjust_loop rpy c idxs (traj, sts))) = length traj"
  by (induction idxs arbitrary: traj sts) simp_all

lemma readjust_loop_nth:
  "i < length traj \<Longrightarrow>
   fst (readjust_loop rpy c idxs (traj, sts)) ! i
     = (if i \<in> set idxs then recenter_pose c (traj ! i) else traj ! i)"
proof (induction idxs arbitrary: traj sts)
  case Nil
  then show ?case by simp
next
  case (Cons j idxs)
  have upd: "traj[j := recenter_pose c (traj ! j)] ! i
      = (if i = j then recenter_pose c (traj ! i) else traj ! i)"
    using Cons.prems by (simp add: nth_list_update)
  show ?case
    using Cons.prems Cons.IH [of "traj[j := recenter_pose c (traj ! j)]"]
    by (simp add: upd recenter_pose_twice)
qed

lemma readjust_result:
  assumes "readjustGlobalPlanLocally rpy pose_dist cropBox computeCentroid robot cloud traj
             iy iz la = Inr (traj', published)"
    and "readjust_goal_index pose_dist traj robot la = Inr goal"
  shows "traj' = traj
       \<or> (\<exists>c. traj' = fst (readjust_loop rpy c
                 [nat (nearestStateIndex pose_dist traj robot) ..< nat (goal + 1)] (traj, []))
              \<and> 0 \<le> nearestStateIndex pose_dist traj robot)"
  using assms
  by (auto simp: readjustGlobalPlanLocally_def Let_def slice_def at_index_def
      split: sum.splits if_splits)



lemma row_nearest:
  "nearestStateIndex getEuclidianDistBetweenPoses
     [pose_at 0 1 a, pose_at 1 2 b, pose_at 2 3 c] (pose_at 0 1 q) = 0"
  by (simp add: nearestStateIndex_def getEuclidianDistBetweenPoses_def pose_at_def trunc_int_def)

lemma row_goal:
  "readjust_goal_index getEuclidianDistBetweenPoses
     [pose_at 0 1 a, pose_at 1 2 b, pose_at 2 3 c] (pose_at 0 1 q) 1 = Inr 1"
  by (simp add: readjust_goal_index_def row_nearest int_add_def INT_MIN_def INT_MAX_def
      size_t_of_int_def size_minus_one_def)


lemma fmod_zero: "fmod 0 pi = 0"
  by (simp add: fmod_def trunc_int_def)

lemma yaw_pose_at: "yaw_of rpy_of_yaw (orientation (pose_at a b q)) = q"
  by (simp add: yaw_of_def rpy_of_yaw_def pose_at_def)

lemma row_readjust:
  "readjustGlobalPlanLocally rpy_of_yaw getEuclidianDistBetweenPoses cropBox computeCentroid
     (pose_at 0 1 0) cloud row_path (3 / 10) (3 / 10) 1
   = Inr ([recenter_pose
             (computeCentroid (cropBox cloud (0, 7 / 10, - (3 / 10), 1) (1, 23 / 10, 3 / 10, 1)) Point0)
             (pose_at 0 1 0),
           recenter_pose
             (computeCentroid (cropBox cloud (0, 7 / 10, - (3 / 10), 1) (1, 23 / 10, 3 / 10, 1)) Point0)
             (pose_at 1 2 0),
           pose_at 2 3 0],
          Some ([state_of_pose rpy_of_yaw (recenter_pose
             (computeCentroid (cropBox cloud (0, 7 / 10, - (3 / 10), 1) (1, 23 / 10, 3 / 10, 1)) Point0)
             (pose_at 0 1 0)),
                 state_of_pose rpy_of_yaw (recenter_pose
             (computeCentroid (cropBox cloud (0, 7 / 10, - (3 / 10), 1) (1, 23 / 10, 3 / 10, 1)) Point0)
             (pose_at 1 2 0))],
                cropBox cloud (0, 7 / 10, - (3 / 10), 1) (1, 23 / 10, 3 / 10, 1)))"
proof -
  have corners: "crop_corners 0
      (pose_at 0 1 (0::real)) (pose_at 1 2 (0::real)) (3 / 10) (3 / 10)
    = ((0, 7 / 10, - (3 / 10), 1), (1, 23 / 10, 3 / 10, 1))"
    by (simp add: crop_corners_def yaw_of_def rpy_of_yaw_def pose_at_def)
  have idx: "[0 ..< 2] = [0, Suc 0]"
    by (simp add: upt_rec)
  show ?thesis
    unfolding readjustGlobalPlanLocally_def row_path_def row_goal row_nearest
    by (simp add: slice_def at_index_def yaw_pose_at fmod_zero corners idx Let_def)
qed


lemma row_cloud_centroid:
  "computeCentroid_mean (cropBox_inside row_cloud (0, 7 / 10, - (3 / 10), 1)
       (1, 23 / 10, 3 / 10, 1)) Point0
   = \<lparr>pt_x = 1 / 2, pt_y = 3 / 2, pt_z = 1 / 5\<rparr>"
  by (simp add: computeCentroid_mean_def cropBox_inside_def row_cloud_def)

lemma empty_cloud_centroid:
  "computeCentroid_mean (cropBox_inside [] mn mx) Point0 = Point0"
  by (simp add: computeCentroid_mean_def cropBox_inside_def)




text \<open>
  C10. Whenever \<open>readjustGlobalPlanLocally\<close> returns, the path has its length, and
  every pose has its header, its orientation and its \<open>x\<close> position as before; a pose
  before the nearest-state index or after the local-goal index is as before
  altogether. So the recentering writes only the \<open>y\<close> and \<open>z\<close> positions of the
  poses of the slice. The other functions of the header take the path as a constant
  reference; in the model they do not return a path.
\<close>

theorem readjust_frame:
  assumes "readjustGlobalPlanLocally rpy pose_dist cropBox computeCentroid curr_robot_pose
             pcl_curr reference_traj inflate_y_cropping inflate_z_cropping look_ahead_waypints
           = Inr (traj', published)"
    and "readjust_goal_index pose_dist reference_traj curr_robot_pose look_ahead_waypints
           = Inr goal"
  shows "length traj' = length reference_traj
     \<and> (\<forall>i < length reference_traj.
           stamp (traj' ! i) = stamp (reference_traj ! i)
         \<and> frame_id (traj' ! i) = frame_id (reference_traj ! i)
         \<and> orientation (traj' ! i) = orientation (reference_traj ! i)
         \<and> pt_x (position (traj' ! i)) = pt_x (position (reference_traj ! i))
         \<and> (int i < nearestStateIndex pose_dist reference_traj curr_robot_pose \<or> goal < int i
              \<longrightarrow> traj' ! i = reference_traj ! i))"
proof -
  from readjust_result [OF assms] show ?thesis
  proof
    assume "traj' = reference_traj"
    then show ?thesis by simp
  next
    assume "\<exists>c. traj' = fst (readjust_loop rpy c
                 [nat (nearestStateIndex pose_dist reference_traj curr_robot_pose)
                    ..< nat (goal + 1)] (reference_traj, []))
              \<and> 0 \<le> nearestStateIndex pose_dist reference_traj curr_robot_pose"
    then obtain c where t: "traj' = fst (readjust_loop rpy c
                 [nat (nearestStateIndex pose_dist reference_traj curr_robot_pose)
                    ..< nat (goal + 1)] (reference_traj, []))"
      and n: "0 \<le> nearestStateIndex pose_dist reference_traj curr_robot_pose"
      by blast
    have len: "length traj' = length reference_traj"
      unfolding t by (rule readjust_loop_length)
    have "stamp (traj' ! i) = stamp (reference_traj ! i)
         \<and> frame_id (traj' ! i) = frame_id (reference_traj ! i)
         \<and> orientation (traj' ! i) = orientation (reference_traj ! i)
         \<and> pt_x (position (traj' ! i)) = pt_x (position (reference_traj ! i))
         \<and> (int i < nearestStateIndex pose_dist reference_traj curr_robot_pose \<or> goal < int i
              \<longrightarrow> traj' ! i = reference_traj ! i)"
      if "i < length reference_traj" for i
      using that n unfolding t
      by (auto simp: readjust_loop_nth recenter_pose_fields)
    with len show ?thesis by blast
  qed
qed

theorem readjust_frame_witness:
  "readjustGlobalPlanLocally rpy_of_yaw getEuclidianDistBetweenPoses cropBox_inside
      computeCentroid_mean (pose_at 0 1 0) row_cloud row_path (3 / 10) (3 / 10) 1
    = Inr ([(pose_at 0 1 0)\<lparr>position := \<lparr>pt_x = 0, pt_y = 3 / 2, pt_z = 1 / 5\<rparr>\<rparr>,
            (pose_at 1 2 0)\<lparr>position := \<lparr>pt_x = 1, pt_y = 3 / 2, pt_z = 1 / 5\<rparr>\<rparr>,
            pose_at 2 3 0],
           Some ([States0\<lparr>st_x := 0, st_y := 3 / 2, st_z := 1 / 5\<rparr>,
                  States0\<lparr>st_x := 1, st_y := 3 / 2, st_z := 1 / 5\<rparr>], row_cloud))
   \<and> readjust_goal_index getEuclidianDistBetweenPoses row_path (pose_at 0 1 0) 1 = Inr 1
   \<and> nearestStateIndex getEuclidianDistBetweenPoses row_path (pose_at 0 1 0) = 0
   \<and> length row_path = 3"
proof -
  have h1: "readjustGlobalPlanLocally rpy_of_yaw getEuclidianDistBetweenPoses cropBox_inside
      computeCentroid_mean (pose_at 0 1 0) row_cloud row_path (3 / 10) (3 / 10) 1
    = Inr ([(pose_at 0 1 0)\<lparr>position := \<lparr>pt_x = 0, pt_y = 3 / 2, pt_z = 1 / 5\<rparr>\<rparr>,
            (pose_at 1 2 0)\<lparr>position := \<lparr>pt_x = 1, pt_y = 3 / 2, pt_z = 1 / 5\<rparr>\<rparr>,
            pose_at 2 3 0],
           Some ([States0\<lparr>st_x := 0, st_y := 3 / 2, st_z := 1 / 5\<rparr>,
                  States0\<lparr>st_x := 1, st_y := 3 / 2, st_z := 1 / 5\<rparr>], row_cloud))"
    unfolding row_readjust row_cloud_centroid
    by (simp add: recenter_pose_def state_of_pose_def pose_at_def yaw_of_def rpy_of_yaw_def
        cropBox_inside_def row_cloud_def States0_def)
  have h2: "readjust_goal_index getEuclidianDistBetweenPoses row_path (pose_at 0 1 0) 1 = Inr 1"
    by (simp add: row_path_def row_goal)
  show ?thesis
    using h1 h2 readjust_frame [OF h1 h2]
    by (simp add: row_path_def row_nearest)
qed

text \<open>
  C5. The claim: when the cropped cloud is empty, the recentering is skipped and every
  pose of the path is left as it was. The source has no such branch: lines 493-499
  run whenever the alignment check has passed. For the path \<open>row_path\<close> and a cloud
  without points, the centroid stays the default point \<open>(0, 0, 0)\<close> and the two poses
  of the slice are moved from \<open>y = 1\<close> and \<open>y = 2\<close> to \<open>y = 0\<close>; and whatever
  \<open>cropBox\<close> and \<open>computeCentroid\<close> yield for the empty cloud, the path returned
  differs from the path given, since both poses of the slice get the same \<open>y\<close>.
\<close>

theorem empty_cloud_moves_path:
  "readjustGlobalPlanLocally rpy_of_yaw getEuclidianDistBetweenPoses cropBox_inside
      computeCentroid_mean (pose_at 0 1 0) [] row_path (3 / 10) (3 / 10) 1
    = Inr ([pose_at 0 0 0, pose_at 1 0 0, pose_at 2 3 0],
           Some (map (state_of_pose rpy_of_yaw) [pose_at 0 0 0, pose_at 1 0 0], []))
   \<and> (\<exists>traj' published.
         readjustGlobalPlanLocally rpy_of_yaw getEuclidianDistBetweenPoses cropBox
           computeCentroid (pose_at 0 1 0) [] row_path (3 / 10) (3 / 10) 1
         = Inr (traj', published)
       \<and> traj' \<noteq> row_path)"
proof
  show "readjustGlobalPlanLocally rpy_of_yaw getEuclidianDistBetweenPoses cropBox_inside
      computeCentroid_mean (pose_at 0 1 0) [] row_path (3 / 10) (3 / 10) 1
    = Inr ([pose_at 0 0 0, pose_at 1 0 0, pose_at 2 3 0],
           Some (map (state_of_pose rpy_of_yaw) [pose_at 0 0 0, pose_at 1 0 0], []))"
    unfolding row_readjust empty_cloud_centroid
    by (simp add: recenter_pose_def pose_at_def Point0_def cropBox_inside_def)
next
  define c where "c = computeCentroid (cropBox [] (0, 7 / 10, - (3 / 10), 1)
       (1, 23 / 10, 3 / 10, 1)) Point0"
  have "[recenter_pose c (pose_at 0 1 0), recenter_pose c (pose_at 1 2 0), pose_at 2 3 (0::real)]
          \<noteq> row_path"
  proof
    assume "[recenter_pose c (pose_at 0 1 0), recenter_pose c (pose_at 1 2 0),
        pose_at 2 3 (0::real)] = row_path"
    then have "pt_y (position (recenter_pose c (pose_at 0 1 (0::real)))) = 1"
      and "pt_y (position (recenter_pose c (pose_at 1 2 (0::real)))) = 2"
      by (simp_all add: row_path_def pose_at_def)
    then show False by (simp add: recenter_pose_fields)
  qed
  then show "\<exists>traj' published.
         readjustGlobalPlanLocally rpy_of_yaw getEuclidianDistBetweenPoses cropBox
           computeCentroid (pose_at 0 1 0) [] row_path (3 / 10) (3 / 10) 1
         = Inr (traj', published)
       \<and> traj' \<noteq> row_path"
    unfolding row_readjust c_def by simp
qed

end
